theory Spec2Isabelle
  imports Complex_Main
begin

section \<open>Health monitor: the sampling and classification engine\<close>

text \<open>
  The development embeds the engine of the two monitors of the repository:
  \<^item> \<^verbatim>\<open>ComprehensiveSystemHealthMonitor\<close> (\<^verbatim>\<open>system_health_monitor.py\<close>), the terminal
    dashboard, which owns the rolling histories and the trend analysis;
  \<^item> \<^verbatim>\<open>SystemHealthGUI\<close> (\<^verbatim>\<open>system_health_01.py\<close>), the desktop window, whose
    definitions carry the prefix \<open>gui_\<close>.

  Conventions of the embedding.
  \<^item> Python floats are modelled by \<open>real\<close>: comparisons against the integer thresholds, the
    test \<^verbatim>\<open>time_delta > 0\<close> and the sign of a quotient are exact in Python; the rounding of
    float arithmetic (and NaN) is not modelled, so the last digits of a rate and a trend
    verdict within rounding distance of a deadband boundary are outside the model. The
    statements below are made where the model and double arithmetic agree. Byte counters
    are Python integers, modelled by \<open>int\<close>.
  \<^item> Every value read from \<^verbatim>\<open>psutil\<close> or the clock is a parameter of the method that reads
    it; the mutable attributes of \<^verbatim>\<open>self\<close> are a record that is passed in and returned.
  \<^item> A subscript on the dictionary \<^verbatim>\<open>self.health_history\<close> raises \<^verbatim>\<open>KeyError\<close> where the
    key is missing; this is the \<open>Inl\<close> branch of the result.
  \<^item> Rendering (text, colours on screen, images) is left out; the colour constants are
    kept since the classifier returns them.
\<close>

subsection \<open>Health bands and colours\<close>

text \<open>The string constants of class \<^verbatim>\<open>HealthStatus\<close>.\<close>

datatype health_status = CRITICAL | WARNING | CAUTION | HEALTHY | UNKNOWN

text \<open>ANSI escape sequences of the terminal monitor (\<^verbatim>\<open>\033\<close> is the byte 27).\<close>

definition COLOR_CRITICAL :: string where "COLOR_CRITICAL = CHR 0x1B # ''[91m''"
definition COLOR_WARNING :: string where "COLOR_WARNING = CHR 0x1B # ''[93m''"
definition COLOR_CAUTION :: string where "COLOR_CAUTION = CHR 0x1B # ''[94m''"
definition COLOR_HEALTHY :: string where "COLOR_HEALTHY = CHR 0x1B # ''[92m''"
definition COLOR_UNKNOWN :: string where "COLOR_UNKNOWN = CHR 0x1B # ''[90m''"

text \<open>RGB colour codes of the desktop monitor.\<close>

definition gui_COLOR_CRITICAL :: string where "gui_COLOR_CRITICAL = ''#FF4444''"
definition gui_COLOR_WARNING :: string where "gui_COLOR_WARNING = ''#FFAA00''"
definition gui_COLOR_CAUTION :: string where "gui_COLOR_CAUTION = ''#4488FF''"
definition gui_COLOR_HEALTHY :: string where "gui_COLOR_HEALTHY = ''#44AA44''"
definition gui_COLOR_UNKNOWN :: string where "gui_COLOR_UNKNOWN = ''#888888''"
definition gui_COLOR_NEUTRAL :: string where "gui_COLOR_NEUTRAL = ''#FFFFFF''"

subsection \<open>Threshold tables\<close>

text \<open>
  The class attribute \<^verbatim>\<open>THRESHOLDS\<close> of each monitor, entry by entry. The tables are
  literals and every subscript of the classifiers names an entry of its table
  (lemmas \<open>threshold_values\<close> and \<open>gui_threshold_values\<close>), so the lookup is a total function;
  its default is never reached by the code below.
\<close>

definition THRESHOLDS :: "(string \<times> int) list" where
  "THRESHOLDS =
    [(''cpu_healthy'', 30), (''cpu_caution'', 60), (''cpu_warning'', 80), (''cpu_critical'', 90),
     (''memory_healthy'', 50), (''memory_caution'', 70), (''memory_warning'', 85),
     (''memory_critical'', 95),
     (''disk_healthy'', 50), (''disk_caution'', 70), (''disk_warning'', 85),
     (''disk_critical'', 95),
     (''temp_healthy'', 50), (''temp_caution'', 70), (''temp_warning'', 85),
     (''temp_critical'', 100),
     (''battery_healthy'', 80), (''battery_caution'', 50), (''battery_warning'', 20),
     (''battery_critical'', 10),
     (''disk_io_warning'', 1000), (''network_warning'', 100),
     (''process_cpu_warning'', 40), (''process_memory_warning'', 30)]"

definition threshold :: "string \<Rightarrow> real" where
  "threshold k = (case map_of THRESHOLDS k of Some c \<Rightarrow> real_of_int c | None \<Rightarrow> 0)"

definition gui_THRESHOLDS :: "(string \<times> int) list" where
  "gui_THRESHOLDS =
    [(''cpu_critical'', 90), (''cpu_warning'', 80), (''cpu_caution'', 60),
     (''memory_critical'', 95), (''memory_warning'', 85), (''memory_caution'', 70),
     (''disk_critical'', 95), (''disk_warning'', 85), (''disk_caution'', 70),
     (''temp_critical'', 100), (''temp_warning'', 85), (''temp_caution'', 70),
     (''battery_critical'', 10), (''battery_warning'', 20), (''battery_caution'', 50)]"

definition gui_threshold :: "string \<Rightarrow> real" where
  "gui_threshold k = (case map_of gui_THRESHOLDS k of Some c \<Rightarrow> real_of_int c | None \<Rightarrow> 0)"

subsection \<open>The classifiers\<close>

text \<open>
  \<^verbatim>\<open>ComprehensiveSystemHealthMonitor.get_status_and_color(metric_type, value)\<close>: the pair of
  the band and its colour. \<open>None\<close> is Python's \<^verbatim>\<open>None\<close>.
\<close>

definition get_status_and_color :: "string \<Rightarrow> real option \<Rightarrow> health_status \<times> string" where
  "get_status_and_color metric_type val =
    (case val of
       None \<Rightarrow> (UNKNOWN, COLOR_UNKNOWN)
     | Some v \<Rightarrow>
        if metric_type = ''cpu'' then
          (if v \<ge> threshold ''cpu_critical'' then (CRITICAL, COLOR_CRITICAL)
           else if v \<ge> threshold ''cpu_warning'' then (WARNING, COLOR_WARNING)
           else if v \<ge> threshold ''cpu_caution'' then (CAUTION, COLOR_CAUTION)
           else (HEALTHY, COLOR_HEALTHY))
        else if metric_type = ''memory'' then
          (if v \<ge> threshold ''memory_critical'' then (CRITICAL, COLOR_CRITICAL)
           else if v \<ge> threshold ''memory_warning'' then (WARNING, COLOR_WARNING)
           else if v \<ge> threshold ''memory_caution'' then (CAUTION, COLOR_CAUTION)
           else (HEALTHY, COLOR_HEALTHY))
        else if metric_type = ''disk'' then
          (if v \<ge> threshold ''disk_critical'' then (CRITICAL, COLOR_CRITICAL)
           else if v \<ge> threshold ''disk_warning'' then (WARNING, COLOR_WARNING)
           else if v \<ge> threshold ''disk_caution'' then (CAUTION, COLOR_CAUTION)
           else (HEALTHY, COLOR_HEALTHY))
        else if metric_type = ''temperature'' then
          (if v \<ge> threshold ''temp_critical'' then (CRITICAL, COLOR_CRITICAL)
           else if v \<ge> threshold ''temp_warning'' then (WARNING, COLOR_WARNING)
           else if v \<ge> threshold ''temp_caution'' then (CAUTION, COLOR_CAUTION)
           else (HEALTHY, COLOR_HEALTHY))
        else if metric_type = ''battery'' then
          (if v \<le> threshold ''battery_critical'' then (CRITICAL, COLOR_CRITICAL)
           else if v \<le> threshold ''battery_warning'' then (WARNING, COLOR_WARNING)
           else if v \<le> threshold ''battery_caution'' then (CAUTION, COLOR_CAUTION)
           else (HEALTHY, COLOR_HEALTHY))
        else (HEALTHY, COLOR_HEALTHY))"

text \<open>
  \<^verbatim>\<open>SystemHealthGUI.get_status_color(metric_type, value)\<close>. The keys of the memory and disk
  branch are built from the metric type (\<^verbatim>\<open>f'{metric_type}_critical'\<close>).
\<close>

definition gui_get_status_color :: "string \<Rightarrow> real option \<Rightarrow> string" where
  "gui_get_status_color metric_type val =
    (case val of
       None \<Rightarrow> gui_COLOR_UNKNOWN
     | Some v \<Rightarrow>
        if metric_type = ''cpu'' then
          (if v \<ge> gui_threshold ''cpu_critical'' then gui_COLOR_CRITICAL
           else if v \<ge> gui_threshold ''cpu_warning'' then gui_COLOR_WARNING
           else if v \<ge> gui_threshold ''cpu_caution'' then gui_COLOR_CAUTION
           else gui_COLOR_HEALTHY)
        else if metric_type = ''memory'' \<or> metric_type = ''disk'' then
          (if v \<ge> gui_threshold (metric_type @ ''_critical'') then gui_COLOR_CRITICAL
           else if v \<ge> gui_threshold (metric_type @ ''_warning'') then gui_COLOR_WARNING
           else if v \<ge> gui_threshold (metric_type @ ''_caution'') then gui_COLOR_CAUTION
           else gui_COLOR_HEALTHY)
        else if metric_type = ''temperature'' then
          (if v \<ge> gui_threshold ''temp_critical'' then gui_COLOR_CRITICAL
           else if v \<ge> gui_threshold ''temp_warning'' then gui_COLOR_WARNING
           else if v \<ge> gui_threshold ''temp_caution'' then gui_COLOR_CAUTION
           else gui_COLOR_HEALTHY)
        else if metric_type = ''battery'' then
          (if v \<le> gui_threshold ''battery_critical'' then gui_COLOR_CRITICAL
           else if v \<le> gui_threshold ''battery_warning'' then gui_COLOR_WARNING
           else if v \<le> gui_threshold ''battery_caution'' then gui_COLOR_CAUTION
           else gui_COLOR_HEALTHY)
        else gui_COLOR_NEUTRAL)"

text \<open>
  \<^verbatim>\<open>SystemHealthGUI.get_status_text(metric_type, value)\<close>. It returns the string literals
  \<^verbatim>\<open>"CRITICAL"\<close>, ..., \<^verbatim>\<open>"UNKNOWN"\<close>, the values of the \<^verbatim>\<open>HealthStatus\<close> constants. The
  method has a branch for cpu, one for memory and disk, one for battery, and no branch
  for temperature.
\<close>

definition get_status_text :: "string \<Rightarrow> real option \<Rightarrow> health_status" where
  "get_status_text metric_type val =
    (case val of
       None \<Rightarrow> UNKNOWN
     | Some v \<Rightarrow>
        if metric_type = ''cpu'' then
          (if v \<ge> gui_threshold ''cpu_critical'' then CRITICAL
           else if v \<ge> gui_threshold ''cpu_warning'' then WARNING
           else if v \<ge> gui_threshold ''cpu_caution'' then CAUTION
           else HEALTHY)
        else if metric_type \<in> set [''memory'', ''disk''] then
          (if v \<ge> gui_threshold (metric_type @ ''_critical'') then CRITICAL
           else if v \<ge> gui_threshold (metric_type @ ''_warning'') then WARNING
           else if v \<ge> gui_threshold (metric_type @ ''_caution'') then CAUTION
           else HEALTHY)
        else if metric_type = ''battery'' then
          (if v \<le> gui_threshold ''battery_critical'' then CRITICAL
           else if v \<le> gui_threshold ''battery_warning'' then WARNING
           else if v \<le> gui_threshold ''battery_caution'' then CAUTION
           else HEALTHY)
        else HEALTHY)"

text \<open>
  The severity order of the bands, \<open>HEALTHY < CAUTION < WARNING < CRITICAL\<close>. The code
  has no such function; it is the order in which the classifiers test the cutoffs, and
  the scale on which monotonicity is measured. \<open>UNKNOWN\<close> is not a severity.
\<close>

fun severity :: "health_status \<Rightarrow> nat option" where
  "severity HEALTHY = Some 0"
| "severity CAUTION = Some 1"
| "severity WARNING = Some 2"
| "severity CRITICAL = Some 3"
| "severity UNKNOWN = None"

subsection \<open>State of the terminal monitor\<close>

text \<open>The counter tuples of \<^verbatim>\<open>psutil.disk_io_counters()\<close> and \<^verbatim>\<open>psutil.net_io_counters()\<close>.\<close>

record sdiskio =
  read_bytes :: int
  write_bytes :: int
  read_count :: int
  write_count :: int

record snetio =
  bytes_sent :: int
  bytes_recv :: int
  packets_sent :: int
  packets_recv :: int

text \<open>The attributes that \<^verbatim>\<open>__init__\<close> sets and the sampling methods read or write.\<close>

record monitor =
  interval :: int
  prev_disk_io :: sdiskio
  prev_net_io :: snetio
  prev_time :: real
  health_history :: "string \<rightharpoonup> real list"
  history_max :: nat

datatype error = KeyError string

text \<open>
  \<^verbatim>\<open>__init__(interval)\<close>: the counters and the clock are read once, the four histories start
  empty and the capacity is 5.
\<close>

definition init :: "int \<Rightarrow> sdiskio \<Rightarrow> snetio \<Rightarrow> real \<Rightarrow> monitor" where
  "init ival dio nio now =
    \<lparr> interval = ival, prev_disk_io = dio, prev_net_io = nio, prev_time = now,
      health_history = [''cpu'' \<mapsto> [], ''memory'' \<mapsto> [], ''disk'' \<mapsto> [],
                        ''temperature'' \<mapsto> []],
      history_max = 5 \<rparr>"

subsection \<open>Rolling history and trend\<close>

text \<open>
  The three statements that every sampling method repeats for its metric:
  \<^verbatim>\<open>
  self.health_history[k].append(v)
  if len(self.health_history[k]) > self.history_max:
      self.health_history[k].pop(0)
  \<close>
  \<open>window_append\<close> is their effect on the list: the value is appended and, where the
  list has then more than \<open>cap\<close> entries, \<^verbatim>\<open>pop(0)\<close> removes the first one.
  \<open>append_history\<close> is the same on the dictionary of the monitor.
\<close>

definition window_append :: "nat \<Rightarrow> real list \<Rightarrow> real \<Rightarrow> real list" where
  "window_append cap h v = (let h1 = h @ [v] in if length h1 > cap then tl h1 else h1)"

definition append_history :: "string \<Rightarrow> real \<Rightarrow> monitor \<Rightarrow> error + monitor" where
  "append_history k v s =
    (case health_history s k of
       None \<Rightarrow> Inl (KeyError k)
     | Some h \<Rightarrow>
        Inr (s\<lparr>health_history := (health_history s)(k \<mapsto> window_append (history_max s) h v)\<rparr>))"

text \<open>
  The strings returned by \<^verbatim>\<open>analyze_trend\<close>: \<^verbatim>\<open>"No data"\<close>, \<^verbatim>\<open>"Insufficient data"\<close>, and the
  three verdicts "Increasing", "Decreasing" and "Stable" (each with a pictograph).
\<close>

datatype trend = No_data | Insufficient_data | Increasing | Decreasing | Stable

text \<open>
  \<^verbatim>\<open>analyze_trend(metric_type, current_value)\<close>. The history is read with
  \<^verbatim>\<open>.get(metric_type, [])\<close>; \<^verbatim>\<open>history[-3:]\<close> is the last three entries, or all of them
  when there are fewer. The factors \<^verbatim>\<open>1.1\<close> and \<^verbatim>\<open>0.9\<close> are the fractions 11/10 and 9/10.
\<close>

definition analyze_trend :: "monitor \<Rightarrow> string \<Rightarrow> real option \<Rightarrow> trend" where
  "analyze_trend s metric_type current_value =
    (case current_value of
       None \<Rightarrow> No_data
     | Some v \<Rightarrow>
        let history = (case health_history s metric_type of None \<Rightarrow> [] | Some h \<Rightarrow> h)
        in if length history < 2 then Insufficient_data
           else
             let avg_recent = sum_list (drop (length history - 3) history)
                                / real (min 3 (length history))
             in if v > avg_recent * (11 / 10) then Increasing
                else if v < avg_recent * (9 / 10) then Decreasing
                else Stable)"

subsection \<open>Sampling methods of the terminal monitor\<close>

text \<open>
  \<^verbatim>\<open>get_cpu_metrics()\<close>. The record \<open>cpu_metrics\<close> is the dictionary the method returns; the
  same record carries what the method reads: the per-core and average percentages and
  the frequency from \<^verbatim>\<open>psutil\<close>, and the temperature that \<^verbatim>\<open>get_cpu_temperature()\<close> found
  (\<open>None\<close> where no sensor answers).
\<close>

record cpu_metrics =
  per_core :: "real list"
  average :: real
  frequency :: "real option"
  temperature :: "real option"
  cores :: "int option"
  threads :: "int option"

definition get_cpu_metrics :: "cpu_metrics \<Rightarrow> monitor \<Rightarrow> error + (cpu_metrics \<times> monitor)" where
  "get_cpu_metrics r s =
    (case append_history ''cpu'' (average r) s of
       Inl e \<Rightarrow> Inl e
     | Inr s1 \<Rightarrow>
        (case temperature r of
           None \<Rightarrow> Inr (r, s1)
         | Some temp \<Rightarrow>
            (case append_history ''temperature'' temp s1 of
               Inl e \<Rightarrow> Inl e
             | Inr s2 \<Rightarrow> Inr (r, s2))))"

text \<open>
  \<^verbatim>\<open>get_memory_metrics()\<close>, from \<^verbatim>\<open>psutil.virtual_memory()\<close> and \<^verbatim>\<open>psutil.swap_memory()\<close>.
\<close>

record memory_metrics =
  mem_total :: int
  mem_available :: int
  mem_used :: int
  mem_percent :: real
  swap_total :: int
  swap_used :: int
  swap_percent :: real

definition get_memory_metrics ::
  "memory_metrics \<Rightarrow> monitor \<Rightarrow> error + (memory_metrics \<times> monitor)" where
  "get_memory_metrics r s =
    (case append_history ''memory'' (mem_percent r) s of
       Inl e \<Rightarrow> Inl e
     | Inr s1 \<Rightarrow> Inr (r, s1))"

text \<open>
  \<^verbatim>\<open>get_disk_metrics()\<close>. Its readings are \<^verbatim>\<open>psutil.disk_usage(disk_path)\<close>,
  \<^verbatim>\<open>psutil.disk_io_counters()\<close> and \<^verbatim>\<open>time.time()\<close>. The two speeds are the conditional
  expressions of the source, \<^verbatim>\<open>(current - previous) / time_delta if time_delta > 0 else 0\<close>.
\<close>

record sdiskusage =
  du_total :: int
  du_used :: int
  du_free :: int
  du_percent :: real

record disk_metrics =
  disk_total :: int
  disk_used :: int
  disk_free :: int
  disk_percent :: real
  read_speed :: real
  write_speed :: real
  disk_read_count :: int
  disk_write_count :: int

definition get_disk_metrics ::
  "sdiskusage \<Rightarrow> sdiskio \<Rightarrow> real \<Rightarrow> monitor \<Rightarrow> error + (disk_metrics \<times> monitor)" where
  "get_disk_metrics disk_usage current_disk_io current_time s =
    (let time_delta = current_time - prev_time s;
         disk_read_speed =
           (if time_delta > 0
            then real_of_int (read_bytes current_disk_io - read_bytes (prev_disk_io s))
                   / time_delta
            else 0);
         disk_write_speed =
           (if time_delta > 0
            then real_of_int (write_bytes current_disk_io - write_bytes (prev_disk_io s))
                   / time_delta
            else 0);
         s1 = s\<lparr>prev_disk_io := current_disk_io\<rparr>
     in case append_history ''disk'' (du_percent disk_usage) s1 of
          Inl e \<Rightarrow> Inl e
        | Inr s2 \<Rightarrow>
           Inr (\<lparr> disk_total = du_total disk_usage, disk_used = du_used disk_usage,
                  disk_free = du_free disk_usage, disk_percent = du_percent disk_usage,
                  read_speed = disk_read_speed, write_speed = disk_write_speed,
                  disk_read_count = read_count current_disk_io,
                  disk_write_count = write_count current_disk_io \<rparr>, s2))"

text \<open>\<^verbatim>\<open>get_network_metrics()\<close>, from \<^verbatim>\<open>psutil.net_io_counters()\<close> and \<^verbatim>\<open>time.time()\<close>.\<close>

record network_metrics =
  upload_speed :: real
  download_speed :: real
  net_packets_sent :: int
  net_packets_recv :: int

definition get_network_metrics :: "snetio \<Rightarrow> real \<Rightarrow> monitor \<Rightarrow> network_metrics \<times> monitor" where
  "get_network_metrics current_net_io current_time s =
    (let time_delta = current_time - prev_time s;
         up_speed =
           (if time_delta > 0
            then real_of_int (bytes_sent current_net_io - bytes_sent (prev_net_io s))
                   / time_delta
            else 0);
         down_speed =
           (if time_delta > 0
            then real_of_int (bytes_recv current_net_io - bytes_recv (prev_net_io s))
                   / time_delta
            else 0)
     in (\<lparr> upload_speed = up_speed, download_speed = down_speed,
            net_packets_sent = packets_sent current_net_io,
            net_packets_recv = packets_recv current_net_io \<rparr>,
         s\<lparr>prev_net_io := current_net_io\<rparr>))"

text \<open>
  \<^verbatim>\<open>get_battery_metrics()\<close>: the reading is \<^verbatim>\<open>psutil.sensors_battery()\<close>, \<open>None\<close> where there
  is no battery or the call raises one of the exceptions the method catches.
\<close>

record sbattery =
  sb_percent :: real
  power_plugged :: bool
  secsleft :: int

record battery_metrics =
  batt_percent :: "real option"
  is_charging :: "bool option"
  time_left :: "int option"

definition get_battery_metrics :: "sbattery option \<Rightarrow> battery_metrics" where
  "get_battery_metrics battery =
    (case battery of
       Some b \<Rightarrow> \<lparr> batt_percent = Some (sb_percent b), is_charging = Some (power_plugged b),
                   time_left = Some (secsleft b) \<rparr>
     | None \<Rightarrow> \<lparr> batt_percent = None, is_charging = None, time_left = None \<rparr>)"

subsection \<open>One cycle of the terminal monitor\<close>

text \<open>Everything one call of \<^verbatim>\<open>display_dashboard()\<close> reads from outside, in the order read.\<close>

record readings =
  cpu_now :: cpu_metrics
  memory_now :: memory_metrics
  disk_usage_now :: sdiskusage
  disk_io_now :: sdiskio
  disk_clock :: real
  net_io_now :: snetio
  net_clock :: real
  battery_now :: "sbattery option"
  end_clock :: real

text \<open>
  What the cycle computes before it formats it: the metrics, and the band and trend of
  each section. The temperature and battery sections are classified only when the
  reading is present.
\<close>

record dashboard =
  cpu :: cpu_metrics
  mem :: memory_metrics
  disk :: disk_metrics
  net :: network_metrics
  battery :: battery_metrics
  cpu_status :: health_status
  cpu_trend :: trend
  temp_status_trend :: "(health_status \<times> trend) option"
  mem_status :: health_status
  mem_trend :: trend
  disk_status :: health_status
  disk_trend :: trend
  batt_status :: "health_status option"

text \<open>
  \<^verbatim>\<open>display_dashboard()\<close>: the four sampling methods in the order of the source, then
  \<^verbatim>\<open>self.prev_time = time.time()\<close>, then the classification and the trend of each section.
  The USB, power-supply, SMART and process probes and the text output are left out.
\<close>

definition display_dashboard :: "readings \<Rightarrow> monitor \<Rightarrow> error + (dashboard \<times> monitor)" where
  "display_dashboard r s =
    (case get_cpu_metrics (cpu_now r) s of
       Inl e \<Rightarrow> Inl e
     | Inr (c, s1) \<Rightarrow>
    (case get_memory_metrics (memory_now r) s1 of
       Inl e \<Rightarrow> Inl e
     | Inr (m, s2) \<Rightarrow>
    (case get_disk_metrics (disk_usage_now r) (disk_io_now r) (disk_clock r) s2 of
       Inl e \<Rightarrow> Inl e
     | Inr (d, s3) \<Rightarrow>
    (case get_network_metrics (net_io_now r) (net_clock r) s3 of
       (n, s4) \<Rightarrow>
        let b = get_battery_metrics (battery_now r);
            s5 = s4\<lparr>prev_time := end_clock r\<rparr>
        in Inr (\<lparr> cpu = c, mem = m, disk = d, net = n, battery = b,
                  cpu_status = fst (get_status_and_color ''cpu'' (Some (average c))),
                  cpu_trend = analyze_trend s5 ''cpu'' (Some (average c)),
                  temp_status_trend =
                    (case temperature c of
                       None \<Rightarrow> None
                     | Some t \<Rightarrow>
                        Some (fst (get_status_and_color ''temperature'' (Some t)),
                              analyze_trend s5 ''temperature'' (Some t))),
                  mem_status = fst (get_status_and_color ''memory'' (Some (mem_percent m))),
                  mem_trend = analyze_trend s5 ''memory'' (Some (mem_percent m)),
                  disk_status = fst (get_status_and_color ''disk'' (Some (disk_percent d))),
                  disk_trend = analyze_trend s5 ''disk'' (Some (disk_percent d)),
                  batt_status =
                    (case batt_percent b of
                       None \<Rightarrow> None
                     | Some p \<Rightarrow> Some (fst (get_status_and_color ''battery'' (Some p)))) \<rparr>,
                s5)))))"

text \<open>
  \<^verbatim>\<open>run()\<close> repeats the cycle until it is interrupted. \<open>cycles\<close> is a finite prefix of that
  loop: one cycle for each element of the list of readings, collecting the dashboards.
\<close>

fun cycles :: "readings list \<Rightarrow> monitor \<Rightarrow> error + (dashboard list \<times> monitor)" where
  "cycles [] s = Inr ([], s)"
| "cycles (r # rs) s =
    (case display_dashboard r s of
       Inl e \<Rightarrow> Inl e
     | Inr (d, s1) \<Rightarrow>
        (case cycles rs s1 of
           Inl e \<Rightarrow> Inl e
         | Inr (ds, s2) \<Rightarrow> Inr (d # ds, s2)))"

subsection \<open>Rates of the desktop monitor\<close>

text \<open>
  \<^verbatim>\<open>SystemHealthGUI\<close> keeps the previous counters and the time of construction, and no
  history. Its \<^verbatim>\<open>get_disk_metrics()\<close> and \<^verbatim>\<open>get_network_metrics()\<close> compute the speeds by
  the same expressions as the terminal monitor.
\<close>

record gui =
  gui_prev_disk_io :: sdiskio
  gui_prev_net_io :: snetio
  gui_prev_time :: real

record gui_disk_metrics =
  gui_disk_total :: int
  gui_disk_used :: int
  gui_disk_free :: int
  gui_disk_percent :: real
  gui_read_speed :: real
  gui_write_speed :: real

definition gui_get_disk_metrics ::
  "sdiskusage \<Rightarrow> sdiskio \<Rightarrow> real \<Rightarrow> gui \<Rightarrow> gui_disk_metrics \<times> gui" where
  "gui_get_disk_metrics disk_usage current_disk_io current_time g =
    (let time_delta = current_time - gui_prev_time g;
         disk_read_speed =
           (if time_delta > 0
            then real_of_int (read_bytes current_disk_io - read_bytes (gui_prev_disk_io g))
                   / time_delta
            else 0);
         disk_write_speed =
           (if time_delta > 0
            then real_of_int (write_bytes current_disk_io - write_bytes (gui_prev_disk_io g))
                   / time_delta
            else 0)
     in (\<lparr> gui_disk_total = du_total disk_usage, gui_disk_used = du_used disk_usage,
            gui_disk_free = du_free disk_usage, gui_disk_percent = du_percent disk_usage,
            gui_read_speed = disk_read_speed, gui_write_speed = disk_write_speed \<rparr>,
         g\<lparr>gui_prev_disk_io := current_disk_io\<rparr>))"

record gui_network_metrics =
  gui_upload_speed :: real
  gui_download_speed :: real

definition gui_get_network_metrics ::
  "snetio \<Rightarrow> real \<Rightarrow> gui \<Rightarrow> gui_network_metrics \<times> gui" where
  "gui_get_network_metrics current_net_io current_time g =
    (let time_delta = current_time - gui_prev_time g;
         up_speed =
           (if time_delta > 0
            then real_of_int (bytes_sent current_net_io - bytes_sent (gui_prev_net_io g))
                   / time_delta
            else 0);
         down_speed =
           (if time_delta > 0
            then real_of_int (bytes_recv current_net_io - bytes_recv (gui_prev_net_io g))
                   / time_delta
            else 0)
     in (\<lparr> gui_upload_speed = up_speed, gui_download_speed = down_speed \<rparr>,
         g\<lparr>gui_prev_net_io := current_net_io\<rparr>))"

subsection \<open>The trend rule in the words of the specification\<close>

text \<open>
  The verdict of a value against a mean with a deadband of 10 percent on either side.
\<close>

definition deadband :: "real \<Rightarrow> real \<Rightarrow> trend" where
  "deadband v m =
    (if v > m * (11 / 10) then Increasing
     else if v < m * (9 / 10) then Decreasing
     else Stable)"

text \<open>
  The rule as the specification states it, on a window whose last entry is the current
  value: with fewer than two entries there is no verdict; otherwise the current value is
  compared with the mean of up to the three most recent entries that precede it.
\<close>

definition spec_trend :: "real list \<Rightarrow> real \<Rightarrow> trend" where
  "spec_trend h v =
    (if length h < 2 then Insufficient_data
     else
       let preceding = butlast h;
           recent = drop (length preceding - 3) preceding
       in deadband v (sum_list recent / real (length recent)))"

text \<open>
  The four verdicts of the specification. The monitor has two strings for the lack of a
  verdict, "No data" for an absent reading and "Insufficient data" for a short window;
  both are the verdict \<open>INSUFFICIENT_DATA\<close>.
\<close>

datatype trend_verdict = INSUFFICIENT_DATA | INCREASING | DECREASING | STABLE

fun verdict :: "trend \<Rightarrow> trend_verdict" where
  "verdict No_data = INSUFFICIENT_DATA"
| "verdict Insufficient_data = INSUFFICIENT_DATA"
| "verdict Increasing = INCREASING"
| "verdict Decreasing = DECREASING"
| "verdict Stable = STABLE"

subsection \<open>Sample inputs\<close>

text \<open>Counters at start-up, and the same counters after a reset.\<close>

definition disk_io_0 :: sdiskio where
  "disk_io_0 = \<lparr> read_bytes = 5000000, write_bytes = 3000000, read_count = 400,
                  write_count = 300 \<rparr>"

definition net_io_0 :: snetio where
  "net_io_0 = \<lparr> bytes_sent = 800000, bytes_recv = 2000000, packets_sent = 900,
                 packets_recv = 1500 \<rparr>"

definition disk_io_reset :: sdiskio where
  "disk_io_reset = \<lparr> read_bytes = 1000000, write_bytes = 1000000, read_count = 10,
                      write_count = 10 \<rparr>"

definition net_io_reset :: snetio where
  "net_io_reset = \<lparr> bytes_sent = 300000, bytes_recv = 500000, packets_sent = 30,
                     packets_recv = 50 \<rparr>"

definition disk_usage_0 :: sdiskusage where
  "disk_usage_0 = \<lparr> du_total = 1000, du_used = 400, du_free = 600, du_percent = 40 \<rparr>"

definition monitor_0 :: monitor where
  "monitor_0 = init 15 disk_io_0 net_io_0 0"

definition gui_0 :: gui where
  "gui_0 = \<lparr> gui_prev_disk_io = disk_io_0, gui_prev_net_io = net_io_0, gui_prev_time = 0 \<rparr>"

text \<open>
  The readings of a cycle at time \<open>t\<close> on a machine without temperature sensor and
  without battery, with CPU average \<open>a\<close>.
\<close>

definition sample :: "real \<Rightarrow> real \<Rightarrow> readings" where
  "sample a t =
    \<lparr> cpu_now = \<lparr> per_core = [a, a], average = a, frequency = None, temperature = None,
                  cores = Some 2, threads = Some 2 \<rparr>,
      memory_now = \<lparr> mem_total = 8000, mem_available = 4800, mem_used = 3200,
                     mem_percent = 40, swap_total = 0, swap_used = 0, swap_percent = 0 \<rparr>,
      disk_usage_now = disk_usage_0,
      disk_io_now = disk_io_0, disk_clock = t,
      net_io_now = net_io_0, net_clock = t,
      battery_now = None, end_clock = t \<rparr>"

definition scenario_1 :: "readings list" where
  "scenario_1 = [sample 50 15, sample 55 30, sample 58 45, sample 70 60]"


text \<open>A monitor whose CPU window ends with a reading 11 percent above the three before it.\<close>

definition monitor_step_up :: monitor where
  "monitor_step_up =
    monitor_0\<lparr>health_history := (health_history monitor_0)(''cpu'' \<mapsto> [100, 100, 100, 111])\<rparr>"

definition step_up :: "readings list" where
  "step_up = [sample 100 15, sample 100 30, sample 100 45, sample 111 60]"

text \<open>The window of a metric kind in a monitor, for stating what a run left behind.\<close>

definition window :: "string \<Rightarrow> monitor \<Rightarrow> real list option" where
  "window k s = health_history s k"

section \<open>Properties\<close>

subsection \<open>Threshold tables and classifiers, kind by kind\<close>

lemma threshold_values:
  "threshold ''cpu_critical'' = 90" "threshold ''cpu_warning'' = 80" "threshold ''cpu_caution'' = 60"
  "threshold ''memory_critical'' = 95" "threshold ''memory_warning'' = 85"
  "threshold ''memory_caution'' = 70"
  "threshold ''disk_critical'' = 95" "threshold ''disk_warning'' = 85"
  "threshold ''disk_caution'' = 70"
  "threshold ''temp_critical'' = 100" "threshold ''temp_warning'' = 85"
  "threshold ''temp_caution'' = 70"
  "threshold ''battery_critical'' = 10" "threshold ''battery_warning'' = 20"
  "threshold ''battery_caution'' = 50"
  by (simp_all add: threshold_def THRESHOLDS_def)

lemma gui_threshold_values:
  "gui_threshold ''cpu_critical'' = 90" "gui_threshold ''cpu_warning'' = 80"
  "gui_threshold ''cpu_caution'' = 60"
  "gui_threshold (''memory'' @ ''_critical'') = 95" "gui_threshold (''memory'' @ ''_warning'') = 85"
  "gui_threshold (''memory'' @ ''_caution'') = 70"
  "gui_threshold (''disk'' @ ''_critical'') = 95" "gui_threshold (''disk'' @ ''_warning'') = 85"
  "gui_threshold (''disk'' @ ''_caution'') = 70"
  "gui_threshold ''temp_critical'' = 100" "gui_threshold ''temp_warning'' = 85"
  "gui_threshold ''temp_caution'' = 70"
  "gui_threshold ''battery_critical'' = 10" "gui_threshold ''battery_warning'' = 20"
  "gui_threshold ''battery_caution'' = 50"
  by (simp_all add: gui_threshold_def gui_THRESHOLDS_def)



lemma band_cpu:
  "fst (get_status_and_color ''cpu'' (Some v)) =
     (if v \<ge> 90 then CRITICAL else if v \<ge> 80 then WARNING
      else if v \<ge> 60 then CAUTION else HEALTHY)"
  by (simp add: get_status_and_color_def threshold_values)

lemma band_memory:
  "fst (get_status_and_color ''memory'' (Some v)) =
     (if v \<ge> 95 then CRITICAL else if v \<ge> 85 then WARNING
      else if v \<ge> 70 then CAUTION else HEALTHY)"
  by (simp add: get_status_and_color_def threshold_values)

lemma band_disk:
  "fst (get_status_and_color ''disk'' (Some v)) =
     (if v \<ge> 95 then CRITICAL else if v \<ge> 85 then WARNING
      else if v \<ge> 70 then CAUTION else HEALTHY)"
  by (simp add: get_status_and_color_def threshold_values)

lemma band_temperature:
  "fst (get_status_and_color ''temperature'' (Some v)) =
     (if v \<ge> 100 then CRITICAL else if v \<ge> 85 then WARNING
      else if v \<ge> 70 then CAUTION else HEALTHY)"
  by (simp add: get_status_and_color_def threshold_values)

lemma band_battery:
  "fst (get_status_and_color ''battery'' (Some v)) =
     (if v \<le> 10 then CRITICAL else if v \<le> 20 then WARNING
      else if v \<le> 50 then CAUTION else HEALTHY)"
  by (simp add: get_status_and_color_def threshold_values)


lemma text_cpu:
  "get_status_text ''cpu'' (Some v) =
     (if v \<ge> 90 then CRITICAL else if v \<ge> 80 then WARNING
      else if v \<ge> 60 then CAUTION else HEALTHY)"
  by (simp add: get_status_text_def gui_threshold_values)

lemma text_memory:
  "get_status_text ''memory'' (Some v) =
     (if v \<ge> 95 then CRITICAL else if v \<ge> 85 then WARNING
      else if v \<ge> 70 then CAUTION else HEALTHY)"
  using gui_threshold_values(4-6) by (simp add: get_status_text_def)

lemma text_disk:
  "get_status_text ''disk'' (Some v) =
     (if v \<ge> 95 then CRITICAL else if v \<ge> 85 then WARNING
      else if v \<ge> 70 then CAUTION else HEALTHY)"
  using gui_threshold_values(7-9) by (simp add: get_status_text_def)

lemma text_battery:
  "get_status_text ''battery'' (Some v) =
     (if v \<le> 10 then CRITICAL else if v \<le> 20 then WARNING
      else if v \<le> 50 then CAUTION else HEALTHY)"
  by (simp add: get_status_text_def gui_threshold_values)

lemma text_temperature: "get_status_text ''temperature'' (Some v) = HEALTHY"
  by (simp add: get_status_text_def)

lemma color_temperature:
  "gui_get_status_color ''temperature'' (Some v) =
     (if v \<ge> 100 then gui_COLOR_CRITICAL else if v \<ge> 85 then gui_COLOR_WARNING
      else if v \<ge> 70 then gui_COLOR_CAUTION else gui_COLOR_HEALTHY)"
  by (simp add: gui_get_status_color_def gui_threshold_values)

lemma band_None: "get_status_and_color metric_type None = (UNKNOWN, COLOR_UNKNOWN)"
  by (simp add: get_status_and_color_def)

lemma text_None: "get_status_text metric_type None = UNKNOWN"
  by (simp add: get_status_text_def)


lemma if_neqI: "a \<noteq> x \<Longrightarrow> b \<noteq> x \<Longrightarrow> (if c then a else b) \<noteq> x"
  by simp

lemma if_fst_neqI: "fst a \<noteq> x \<Longrightarrow> fst b \<noteq> x \<Longrightarrow> fst (if c then a else b) \<noteq> x"
  by simp

lemma band_Some: "fst (get_status_and_color metric_type (Some v)) \<noteq> UNKNOWN"
  unfolding get_status_and_color_def option.case by (intro if_fst_neqI) simp_all

lemma text_Some: "get_status_text metric_type (Some v) \<noteq> UNKNOWN"
  unfolding get_status_text_def option.case by (intro if_neqI) simp_all


subsection \<open>Windows, sampling methods and cycles\<close>




lemma window_append_last: "0 < cap \<Longrightarrow> last (window_append cap h v) = v"
  by (cases h) (simp_all add: window_append_def Let_def)

lemma append_history_Some:
  "health_history s k = Some h \<Longrightarrow>
   append_history k v s =
     Inr (s\<lparr>health_history := (health_history s)(k \<mapsto> window_append (history_max s) h v)\<rparr>)"
  by (simp add: append_history_def)

lemma append_history_None: "health_history s k = None \<Longrightarrow> append_history k v s = Inl (KeyError k)"
  by (simp add: append_history_def)

lemma get_cpu_metrics_Inr:
  assumes "health_history s ''cpu'' = Some hc" and "health_history s ''temperature'' = Some ht"
  shows "get_cpu_metrics r s =
     Inr (r, s\<lparr>health_history := (health_history s)
         (''cpu'' \<mapsto> window_append (history_max s) hc (average r),
          ''temperature'' \<mapsto> (case temperature r of None \<Rightarrow> ht
              | Some t \<Rightarrow> window_append (history_max s) ht t))\<rparr>)"
proof (cases "temperature r")
  case None
  have "(health_history s)(''cpu'' \<mapsto> x, ''temperature'' \<mapsto> ht) = (health_history s)(''cpu'' \<mapsto> x)" for x
    using assms(2) by (auto simp: fun_eq_iff)
  with None assms show ?thesis
    by (simp add: get_cpu_metrics_def append_history_Some)
next
  case (Some t)
  with assms show ?thesis
    by (simp add: get_cpu_metrics_def append_history_Some)
qed

lemma get_cpu_metrics_no_sensor:
  assumes "health_history s ''cpu'' = Some hc" and "temperature r = None"
  shows "get_cpu_metrics r s =
     Inr (r, s\<lparr>health_history := (health_history s)
         (''cpu'' \<mapsto> window_append (history_max s) hc (average r))\<rparr>)"
  using assms by (simp add: get_cpu_metrics_def append_history_Some)

lemma get_memory_metrics_Inr:
  assumes "health_history s ''memory'' = Some hm"
  shows "get_memory_metrics r s =
     Inr (r, s\<lparr>health_history := (health_history s)
         (''memory'' \<mapsto> window_append (history_max s) hm (mem_percent r))\<rparr>)"
  using assms by (simp add: get_memory_metrics_def append_history_Some)

lemma get_disk_metrics_Inr:
  assumes "health_history s ''disk'' = Some hk"
  shows "\<exists>m. get_disk_metrics du io t s =
     Inr (m, s\<lparr>prev_disk_io := io, health_history := (health_history s)
         (''disk'' \<mapsto> window_append (history_max s) hk (du_percent du))\<rparr>)
     \<and> disk_percent m = du_percent du
     \<and> read_speed m = (if t - prev_time s > 0
          then real_of_int (read_bytes io - read_bytes (prev_disk_io s)) / (t - prev_time s) else 0)
     \<and> write_speed m = (if t - prev_time s > 0
          then real_of_int (write_bytes io - write_bytes (prev_disk_io s)) / (t - prev_time s) else 0)"
  using assms by (simp add: get_disk_metrics_def append_history_Some Let_def)

lemma analyze_trend_window:
  "health_history s k = Some h \<Longrightarrow>
   analyze_trend s k (Some v) =
     (if length h < 2 then Insufficient_data
      else deadband v (sum_list (drop (length h - 3) h) / real (min 3 (length h))))"
  by (simp only: analyze_trend_def deadband_def Let_def option.case)


lemma display_dashboard_Inr:
  assumes "health_history s ''cpu'' = Some hc" and "health_history s ''memory'' = Some hm"
    and "health_history s ''disk'' = Some hk" and "health_history s ''temperature'' = Some ht"
  shows "\<exists>d s'. display_dashboard r s = Inr (d, s')
     \<and> history_max s' = history_max s
     \<and> prev_time s' = end_clock r
     \<and> health_history s' ''cpu'' = Some (window_append (history_max s) hc (average (cpu_now r)))
     \<and> health_history s' ''memory''
          = Some (window_append (history_max s) hm (mem_percent (memory_now r)))
     \<and> health_history s' ''disk''
          = Some (window_append (history_max s) hk (du_percent (disk_usage_now r)))
     \<and> health_history s' ''temperature''
          = Some (case temperature (cpu_now r) of None \<Rightarrow> ht
                  | Some t \<Rightarrow> window_append (history_max s) ht t)
     \<and> cpu_status d = fst (get_status_and_color ''cpu'' (Some (average (cpu_now r))))
     \<and> cpu_trend d = analyze_trend s' ''cpu'' (Some (average (cpu_now r)))"
  using assms
  by (simp add: display_dashboard_def get_cpu_metrics_Inr get_memory_metrics_Inr
      get_disk_metrics_def get_network_metrics_def append_history_Some Let_def)

lemma display_dashboard_cpu:
  assumes "health_history s ''cpu'' = Some hc" and "health_history s ''memory'' = Some hm"
    and "health_history s ''disk'' = Some hk" and "health_history s ''temperature'' = Some ht"
  shows "\<exists>d s' hm' hk' ht'. display_dashboard r s = Inr (d, s')
     \<and> history_max s' = history_max s
     \<and> health_history s' ''cpu'' = Some (window_append (history_max s) hc (average (cpu_now r)))
     \<and> health_history s' ''memory'' = Some hm'
     \<and> health_history s' ''disk'' = Some hk'
     \<and> health_history s' ''temperature'' = Some ht'
     \<and> cpu_status d = fst (get_status_and_color ''cpu'' (Some (average (cpu_now r))))
     \<and> cpu_trend d = analyze_trend s' ''cpu'' (Some (average (cpu_now r)))"
  using display_dashboard_Inr [OF assms, of r] by blast

lemma cycles_four:
  fixes r1 r2 r3 r4 :: readings
  defines "a1 \<equiv> average (cpu_now r1)" and "a2 \<equiv> average (cpu_now r2)"
    and "a3 \<equiv> average (cpu_now r3)" and "a4 \<equiv> average (cpu_now r4)"
  shows "\<exists>ds s. cycles [r1, r2, r3, r4] (init ival dio nio now) = Inr (ds, s)
     \<and> map cpu_status ds =
         [fst (get_status_and_color ''cpu'' (Some a1)), fst (get_status_and_color ''cpu'' (Some a2)),
          fst (get_status_and_color ''cpu'' (Some a3)), fst (get_status_and_color ''cpu'' (Some a4))]
     \<and> map cpu_trend ds =
         [Insufficient_data, deadband a2 ((a1 + a2) / 2), deadband a3 ((a1 + a2 + a3) / 3),
          deadband a4 ((a2 + a3 + a4) / 3)]
     \<and> health_history s ''cpu'' = Some [a1, a2, a3, a4]"
proof -
  let ?s0 = "init ival dio nio now"
  have k0: "health_history ?s0 ''cpu'' = Some []" "health_history ?s0 ''memory'' = Some []"
    "health_history ?s0 ''disk'' = Some []" "health_history ?s0 ''temperature'' = Some []"
    and c0: "history_max ?s0 = 5"
    by (simp_all add: init_def)
  from display_dashboard_cpu [OF k0, of r1] c0
  obtain d1 s1 hm1 hk1 ht1 where
    r1: "display_dashboard r1 ?s0 = Inr (d1, s1)" and c1: "history_max s1 = 5"
    and k1: "health_history s1 ''cpu'' = Some [a1]" "health_history s1 ''memory'' = Some hm1"
      "health_history s1 ''disk'' = Some hk1" "health_history s1 ''temperature'' = Some ht1"
    and b1: "cpu_status d1 = fst (get_status_and_color ''cpu'' (Some a1))"
    and t1: "cpu_trend d1 = analyze_trend s1 ''cpu'' (Some a1)"
    by (auto simp: window_append_def a1_def)
  from display_dashboard_cpu [OF k1, of r2] c1
  obtain d2 s2 hm2 hk2 ht2 where
    r2: "display_dashboard r2 s1 = Inr (d2, s2)" and c2: "history_max s2 = 5"
    and k2: "health_history s2 ''cpu'' = Some [a1, a2]" "health_history s2 ''memory'' = Some hm2"
      "health_history s2 ''disk'' = Some hk2" "health_history s2 ''temperature'' = Some ht2"
    and b2: "cpu_status d2 = fst (get_status_and_color ''cpu'' (Some a2))"
    and t2: "cpu_trend d2 = analyze_trend s2 ''cpu'' (Some a2)"
    by (auto simp: window_append_def a2_def)
  from display_dashboard_cpu [OF k2, of r3] c2
  obtain d3 s3 hm3 hk3 ht3 where
    r3: "display_dashboard r3 s2 = Inr (d3, s3)" and c3: "history_max s3 = 5"
    and k3: "health_history s3 ''cpu'' = Some [a1, a2, a3]" "health_history s3 ''memory'' = Some hm3"
      "health_history s3 ''disk'' = Some hk3" "health_history s3 ''temperature'' = Some ht3"
    and b3: "cpu_status d3 = fst (get_status_and_color ''cpu'' (Some a3))"
    and t3: "cpu_trend d3 = analyze_trend s3 ''cpu'' (Some a3)"
    by (auto simp: window_append_def a3_def)
  from display_dashboard_cpu [OF k3, of r4] c3
  obtain d4 s4 where
    r4: "display_dashboard r4 s3 = Inr (d4, s4)"
    and k4: "health_history s4 ''cpu'' = Some [a1, a2, a3, a4]"
    and b4: "cpu_status d4 = fst (get_status_and_color ''cpu'' (Some a4))"
    and t4: "cpu_trend d4 = analyze_trend s4 ''cpu'' (Some a4)"
    by (auto simp: window_append_def a4_def)
  have run: "cycles [r1, r2, r3, r4] ?s0 = Inr ([d1, d2, d3, d4], s4)"
    by (simp add: r1 r2 r3 r4)
  have v1: "cpu_trend d1 = Insufficient_data"
    by (simp add: t1 analyze_trend_window [OF k1(1)])
  have v2: "cpu_trend d2 = deadband a2 ((a1 + a2) / 2)"
    by (simp add: t2 analyze_trend_window [OF k2(1)])
  have v3: "cpu_trend d3 = deadband a3 ((a1 + a2 + a3) / 3)"
    by (simp add: t3 analyze_trend_window [OF k3(1)] add.assoc)
  have v4: "cpu_trend d4 = deadband a4 ((a2 + a3 + a4) / 3)"
    by (simp add: t4 analyze_trend_window [OF k4] add.assoc)
  show ?thesis
    using run b1 b2 b3 b4 v1 v2 v3 v4 k4 by simp
qed



lemma classifiers_agree:
  assumes "metric_type \<in> {''cpu'', ''memory'', ''disk'', ''battery''}"
  shows "get_status_text metric_type val = fst (get_status_and_color metric_type val)"
proof (cases val)
  case None
  then show ?thesis by (simp add: band_None text_None)
next
  case (Some v)
  from assms consider "metric_type = ''cpu''" | "metric_type = ''memory''"
    | "metric_type = ''disk''" | "metric_type = ''battery''" by blast
  then show ?thesis
  proof cases
    case 1 with Some show ?thesis by (simp only: band_cpu text_cpu)
  next
    case 2 with Some show ?thesis by (simp only: band_memory text_memory)
  next
    case 3 with Some show ?thesis by (simp only: band_disk text_disk)
  next
    case 4 with Some show ?thesis by (simp only: band_battery text_battery)
  qed
qed


section \<open>The claims\<close>

subsection \<open>Rates\<close>

text \<open>
  C1 (as amended). With a positive elapsed time and a current counter below the previous
  one (a counter reset), the rate computation returns a negative rate, not 0: no clamp is
  applied. This holds for the disk read and write speeds and the network upload and
  download speeds, in both monitors.
\<close>

theorem C1_counter_reset_gives_negative_rate:
  assumes "health_history s ''disk'' = Some h" and "prev_time s < t" and "gui_prev_time g < tg"
  shows "(\<exists>m s'. get_disk_metrics du dio t s = Inr (m, s')
      \<and> (read_bytes dio < read_bytes (prev_disk_io s) \<longrightarrow> read_speed m < 0)
      \<and> (write_bytes dio < write_bytes (prev_disk_io s) \<longrightarrow> write_speed m < 0))
    \<and> (bytes_sent nio < bytes_sent (prev_net_io s)
          \<longrightarrow> upload_speed (fst (get_network_metrics nio t s)) < 0)
    \<and> (bytes_recv nio < bytes_recv (prev_net_io s)
          \<longrightarrow> download_speed (fst (get_network_metrics nio t s)) < 0)
    \<and> (read_bytes dio < read_bytes (gui_prev_disk_io g)
          \<longrightarrow> gui_read_speed (fst (gui_get_disk_metrics du dio tg g)) < 0)
    \<and> (write_bytes dio < write_bytes (gui_prev_disk_io g)
          \<longrightarrow> gui_write_speed (fst (gui_get_disk_metrics du dio tg g)) < 0)
    \<and> (bytes_sent nio < bytes_sent (gui_prev_net_io g)
          \<longrightarrow> gui_upload_speed (fst (gui_get_network_metrics nio tg g)) < 0)
    \<and> (bytes_recv nio < bytes_recv (gui_prev_net_io g)
          \<longrightarrow> gui_download_speed (fst (gui_get_network_metrics nio tg g)) < 0)"
proof -
  have neg: "real_of_int (a - b) / d < 0" if "a < b" and "0 < d" for a b :: int and d :: real
    using that by (simp add: divide_neg_pos)
  from assms(2) have dt: "0 < t - prev_time s" by simp
  from assms(3) have dg: "0 < tg - gui_prev_time g" by simp
  have disk: "\<exists>m s'. get_disk_metrics du dio t s = Inr (m, s')
      \<and> (read_bytes dio < read_bytes (prev_disk_io s) \<longrightarrow> read_speed m < 0)
      \<and> (write_bytes dio < write_bytes (prev_disk_io s) \<longrightarrow> write_speed m < 0)"
    using get_disk_metrics_Inr [OF assms(1), of du dio t] dt neg [OF _ dt] by auto
  have net: "upload_speed (fst (get_network_metrics nio t s))
          = real_of_int (bytes_sent nio - bytes_sent (prev_net_io s)) / (t - prev_time s)"
    "download_speed (fst (get_network_metrics nio t s))
          = real_of_int (bytes_recv nio - bytes_recv (prev_net_io s)) / (t - prev_time s)"
    using dt by (simp_all add: get_network_metrics_def Let_def)
  have gdisk: "gui_read_speed (fst (gui_get_disk_metrics du dio tg g))
          = real_of_int (read_bytes dio - read_bytes (gui_prev_disk_io g)) / (tg - gui_prev_time g)"
    "gui_write_speed (fst (gui_get_disk_metrics du dio tg g))
          = real_of_int (write_bytes dio - write_bytes (gui_prev_disk_io g)) / (tg - gui_prev_time g)"
    using dg by (simp_all add: gui_get_disk_metrics_def Let_def)
  have gnet: "gui_upload_speed (fst (gui_get_network_metrics nio tg g))
          = real_of_int (bytes_sent nio - bytes_sent (gui_prev_net_io g)) / (tg - gui_prev_time g)"
    "gui_download_speed (fst (gui_get_network_metrics nio tg g))
          = real_of_int (bytes_recv nio - bytes_recv (gui_prev_net_io g)) / (tg - gui_prev_time g)"
    using dg by (simp_all add: gui_get_network_metrics_def Let_def)
  show ?thesis
    using disk net gdisk gnet neg [OF _ dt] neg [OF _ dg] by simp
qed

theorem C1_counter_reset_gives_negative_rate_witness:
  "health_history monitor_0 ''disk'' = Some []
   \<and> prev_time monitor_0 < 10 \<and> gui_prev_time gui_0 < 10
   \<and> read_bytes disk_io_reset < read_bytes (prev_disk_io monitor_0)
   \<and> write_bytes disk_io_reset < write_bytes (prev_disk_io monitor_0)
   \<and> bytes_sent net_io_reset < bytes_sent (prev_net_io monitor_0)
   \<and> bytes_recv net_io_reset < bytes_recv (prev_net_io monitor_0)
   \<and> read_bytes disk_io_reset < read_bytes (gui_prev_disk_io gui_0)
   \<and> write_bytes disk_io_reset < write_bytes (gui_prev_disk_io gui_0)
   \<and> bytes_sent net_io_reset < bytes_sent (gui_prev_net_io gui_0)
   \<and> bytes_recv net_io_reset < bytes_recv (gui_prev_net_io gui_0)
   \<and> (\<exists>m s'. get_disk_metrics disk_usage_0 disk_io_reset 10 monitor_0 = Inr (m, s')
         \<and> read_speed m < 0 \<and> write_speed m < 0)
   \<and> upload_speed (fst (get_network_metrics net_io_reset 10 monitor_0)) < 0
   \<and> download_speed (fst (get_network_metrics net_io_reset 10 monitor_0)) < 0
   \<and> gui_read_speed (fst (gui_get_disk_metrics disk_usage_0 disk_io_reset 10 gui_0)) < 0
   \<and> gui_write_speed (fst (gui_get_disk_metrics disk_usage_0 disk_io_reset 10 gui_0)) < 0
   \<and> gui_upload_speed (fst (gui_get_network_metrics net_io_reset 10 gui_0)) < 0
   \<and> gui_download_speed (fst (gui_get_network_metrics net_io_reset 10 gui_0)) < 0"
proof -
  have h: "health_history monitor_0 ''disk'' = Some []"
    by (simp add: monitor_0_def init_def)
  have t: "prev_time monitor_0 < 10" "gui_prev_time gui_0 < 10"
    by (simp_all add: monitor_0_def init_def gui_0_def)
  have d: "read_bytes disk_io_reset < read_bytes (prev_disk_io monitor_0)"
    "write_bytes disk_io_reset < write_bytes (prev_disk_io monitor_0)"
    "bytes_sent net_io_reset < bytes_sent (prev_net_io monitor_0)"
    "bytes_recv net_io_reset < bytes_recv (prev_net_io monitor_0)"
    "read_bytes disk_io_reset < read_bytes (gui_prev_disk_io gui_0)"
    "write_bytes disk_io_reset < write_bytes (gui_prev_disk_io gui_0)"
    "bytes_sent net_io_reset < bytes_sent (gui_prev_net_io gui_0)"
    "bytes_recv net_io_reset < bytes_recv (gui_prev_net_io gui_0)"
    by (simp_all add: monitor_0_def init_def gui_0_def disk_io_0_def disk_io_reset_def
        net_io_0_def net_io_reset_def)
  from C1_counter_reset_gives_negative_rate [OF h t,
      where du = disk_usage_0 and dio = disk_io_reset and nio = net_io_reset] d h t
  show ?thesis by blast
qed

text \<open>
  The claim as stated (a reset yields rate 0) fails: after a reset of the counters, ten
  seconds after start-up, the speeds of both monitors are negative.
\<close>

theorem C1_counter_reset_counterexample:
  "map_sum id (read_speed \<circ> fst) (get_disk_metrics disk_usage_0 disk_io_reset 10 monitor_0)
     = Inr (- 400000)
   \<and> map_sum id (write_speed \<circ> fst) (get_disk_metrics disk_usage_0 disk_io_reset 10 monitor_0)
     = Inr (- 200000)
   \<and> upload_speed (fst (get_network_metrics net_io_reset 10 monitor_0)) = - 50000
   \<and> download_speed (fst (get_network_metrics net_io_reset 10 monitor_0)) = - 150000
   \<and> gui_read_speed (fst (gui_get_disk_metrics disk_usage_0 disk_io_reset 10 gui_0)) = - 400000
   \<and> gui_upload_speed (fst (gui_get_network_metrics net_io_reset 10 gui_0)) = - 50000"
  by (simp add: get_disk_metrics_def get_network_metrics_def gui_get_disk_metrics_def
      gui_get_network_metrics_def append_history_def monitor_0_def init_def gui_0_def
      disk_io_0_def disk_io_reset_def net_io_0_def net_io_reset_def Let_def)

text \<open>
  C8. Where no time has elapsed since the previous sample (or the clock went back),
  every speed is 0, whatever the counters are: disk and network, both monitors.
\<close>

theorem C8_no_elapsed_time_no_rate:
  assumes "health_history s ''disk'' = Some h" and "t \<le> prev_time s" and "tg \<le> gui_prev_time g"
  shows "(\<exists>m s'. get_disk_metrics du dio t s = Inr (m, s')
           \<and> read_speed m = 0 \<and> write_speed m = 0)
    \<and> upload_speed (fst (get_network_metrics nio t s)) = 0
    \<and> download_speed (fst (get_network_metrics nio t s)) = 0
    \<and> gui_read_speed (fst (gui_get_disk_metrics du dio tg g)) = 0
    \<and> gui_write_speed (fst (gui_get_disk_metrics du dio tg g)) = 0
    \<and> gui_upload_speed (fst (gui_get_network_metrics nio tg g)) = 0
    \<and> gui_download_speed (fst (gui_get_network_metrics nio tg g)) = 0"
proof -
  from assms(2) have dt: "\<not> 0 < t - prev_time s" by simp
  from assms(3) have dg: "\<not> 0 < tg - gui_prev_time g" by simp
  have disk: "\<exists>m s'. get_disk_metrics du dio t s = Inr (m, s')
           \<and> read_speed m = 0 \<and> write_speed m = 0"
    using get_disk_metrics_Inr [OF assms(1), of du dio t] dt by auto
  have rest: "upload_speed (fst (get_network_metrics nio t s)) = 0"
    "download_speed (fst (get_network_metrics nio t s)) = 0"
    "gui_read_speed (fst (gui_get_disk_metrics du dio tg g)) = 0"
    "gui_write_speed (fst (gui_get_disk_metrics du dio tg g)) = 0"
    "gui_upload_speed (fst (gui_get_network_metrics nio tg g)) = 0"
    "gui_download_speed (fst (gui_get_network_metrics nio tg g)) = 0"
    using dt dg
    by (simp_all add: get_network_metrics_def gui_get_disk_metrics_def
        gui_get_network_metrics_def Let_def)
  from disk rest show ?thesis by simp
qed

theorem C8_no_elapsed_time_no_rate_witness:
  "health_history monitor_0 ''disk'' = Some []
   \<and> (0::real) \<le> prev_time monitor_0 \<and> (0::real) \<le> gui_prev_time gui_0
   \<and> (\<exists>m s'. get_disk_metrics disk_usage_0 disk_io_reset 0 monitor_0 = Inr (m, s')
         \<and> read_speed m = 0 \<and> write_speed m = 0)
   \<and> upload_speed (fst (get_network_metrics net_io_reset 0 monitor_0)) = 0
   \<and> download_speed (fst (get_network_metrics net_io_reset 0 monitor_0)) = 0
   \<and> gui_read_speed (fst (gui_get_disk_metrics disk_usage_0 disk_io_reset 0 gui_0)) = 0
   \<and> gui_write_speed (fst (gui_get_disk_metrics disk_usage_0 disk_io_reset 0 gui_0)) = 0
   \<and> gui_upload_speed (fst (gui_get_network_metrics net_io_reset 0 gui_0)) = 0
   \<and> gui_download_speed (fst (gui_get_network_metrics net_io_reset 0 gui_0)) = 0"
proof -
  have h: "health_history monitor_0 ''disk'' = Some []"
    by (simp add: monitor_0_def init_def)
  have t: "(0::real) \<le> prev_time monitor_0" "(0::real) \<le> gui_prev_time gui_0"
    by (simp_all add: monitor_0_def init_def gui_0_def)
  from C8_no_elapsed_time_no_rate [OF h t,
      where du = disk_usage_0 and dio = disk_io_reset and nio = net_io_reset] h t
  show ?thesis by blast
qed

subsection \<open>Classifier\<close>

text \<open>
  C5. For every metric kind, each classifier returns \<open>UNKNOWN\<close> if and only if the value
  is absent; a present value is never classified \<open>UNKNOWN\<close>.
\<close>

theorem C5_unknown_iff_absent:
  "(fst (get_status_and_color metric_type val) = UNKNOWN \<longleftrightarrow> val = None)
   \<and> (get_status_text metric_type val = UNKNOWN \<longleftrightarrow> val = None)"
proof (cases val)
  case None
  then show ?thesis by (simp add: band_None text_None)
next
  case (Some v)
  then show ?thesis by (simp add: band_Some text_Some)
qed

text \<open>
  C7. For the ascending kinds (cpu, memory, disk, temperature) the terminal classifier is
  monotone: a larger value never gets a band of lower severity.
\<close>

theorem C7_classifier_monotone:
  assumes "metric_type \<in> {''cpu'', ''memory'', ''disk'', ''temperature''}" and "v1 \<le> v2"
  shows "\<exists>a b. severity (fst (get_status_and_color metric_type (Some v1))) = Some a
            \<and> severity (fst (get_status_and_color metric_type (Some v2))) = Some b \<and> a \<le> b"
proof -
  from assms(1) consider "metric_type = ''cpu''" | "metric_type = ''memory''"
    | "metric_type = ''disk''" | "metric_type = ''temperature''" by blast
  then show ?thesis
  proof cases
    case 1 with assms(2) show ?thesis by (simp add: band_cpu)
  next
    case 2 with assms(2) show ?thesis by (simp add: band_memory)
  next
    case 3 with assms(2) show ?thesis by (simp add: band_disk)
  next
    case 4 with assms(2) show ?thesis by (simp add: band_temperature)
  qed
qed

theorem C7_classifier_monotone_witness:
  "''cpu'' \<in> {''cpu'', ''memory'', ''disk'', ''temperature''} \<and> (55::real) \<le> 85
   \<and> severity (fst (get_status_and_color ''cpu'' (Some 55))) = Some 0
   \<and> severity (fst (get_status_and_color ''cpu'' (Some 85))) = Some 2"
  using C7_classifier_monotone [of "''cpu''" 55 85] by (simp add: band_cpu)

text \<open>
  C9. The claim is that the two classifiers agree on every kind. The code of
  \<^verbatim>\<open>get_status_text\<close> has no temperature branch: at 100 degrees it answers \<open>HEALTHY\<close>
  where the terminal classifier answers \<open>CRITICAL\<close>, and where \<^verbatim>\<open>get_status_color\<close> of the
  same class picks the critical colour.
\<close>

theorem C9_temperature_text_divergence:
  "get_status_text ''temperature'' (Some 100) = HEALTHY
   \<and> fst (get_status_and_color ''temperature'' (Some 100)) = CRITICAL
   \<and> gui_get_status_color ''temperature'' (Some 100) = gui_COLOR_CRITICAL"
  by (simp add: band_temperature text_temperature color_temperature)

subsection \<open>History windows\<close>




text \<open>
  C10. A cycle whose temperature reading is absent leaves the temperature window as it
  was: \<^verbatim>\<open>get_cpu_metrics\<close> appends to it only under \<^verbatim>\<open>if temp is not None\<close>, and no other
  method of the cycle writes to it.
\<close>

theorem C10_absent_temperature_leaves_window:
  assumes "temperature (cpu_now r) = None"
    and "health_history s ''cpu'' = Some hc" and "health_history s ''memory'' = Some hm"
    and "health_history s ''disk'' = Some hk"
  shows "(\<exists>c s1. get_cpu_metrics (cpu_now r) s = Inr (c, s1)
            \<and> health_history s1 ''temperature'' = health_history s ''temperature'')
    \<and> (\<exists>d s'. display_dashboard r s = Inr (d, s')
            \<and> health_history s' ''temperature'' = health_history s ''temperature'')"
proof -
  have cpu: "\<exists>c s1. get_cpu_metrics (cpu_now r) s = Inr (c, s1)
            \<and> health_history s1 ''temperature'' = health_history s ''temperature''"
    using assms(1,2) by (simp add: get_cpu_metrics_no_sensor)
  have cycle: "\<exists>d s'. display_dashboard r s = Inr (d, s')
            \<and> health_history s' ''temperature'' = health_history s ''temperature''"
    using assms
    by (simp add: display_dashboard_def get_cpu_metrics_no_sensor get_memory_metrics_Inr
        get_disk_metrics_def get_network_metrics_def append_history_Some Let_def)
  from cpu cycle show ?thesis by (rule conjI)
qed

theorem C10_absent_temperature_leaves_window_witness:
  "temperature (cpu_now (sample 50 15)) = None
   \<and> health_history monitor_0 ''cpu'' = Some []
   \<and> health_history monitor_0 ''memory'' = Some []
   \<and> health_history monitor_0 ''disk'' = Some []
   \<and> (\<exists>d s'. display_dashboard (sample 50 15) monitor_0 = Inr (d, s')
         \<and> health_history s' ''temperature'' = Some [])"
proof -
  have t: "temperature (cpu_now (sample 50 15)) = None"
    by (simp add: sample_def)
  have k: "health_history monitor_0 ''cpu'' = Some []"
    "health_history monitor_0 ''memory'' = Some []"
    "health_history monitor_0 ''disk'' = Some []"
    and w: "health_history monitor_0 ''temperature'' = Some []"
    by (simp_all add: monitor_0_def init_def)
  from C10_absent_temperature_leaves_window [OF t k] t k w show ?thesis
    by simp
qed

subsection \<open>Scenario 1\<close>

text \<open>
  C2 (as amended). Whatever the other readings are, four cycles from start-up whose CPU
  averages are 50, 55, 58 and 70 yield the bands \<open>HEALTHY\<close>, \<open>HEALTHY\<close>, \<open>HEALTHY\<close>,
  \<open>CAUTION\<close> (70 is below the warning cutoff 80), and the trend at the fourth sample is
  \<open>Increasing\<close>.
\<close>

theorem C2_scenario_bands_and_trend:
  assumes "map (average \<circ> cpu_now) rs = [50, 55, 58, 70]"
  shows "\<exists>ds s. cycles rs (init ival dio nio now) = Inr (ds, s)
     \<and> map cpu_status ds = [HEALTHY, HEALTHY, HEALTHY, CAUTION]
     \<and> map cpu_trend ds = [Insufficient_data, Stable, Stable, Increasing]"
proof -
  from assms obtain r1 r2 r3 r4 where rs: "rs = [r1, r2, r3, r4]"
    and a: "average (cpu_now r1) = 50" "average (cpu_now r2) = 55"
      "average (cpu_now r3) = 58" "average (cpu_now r4) = 70"
    by (auto simp: map_eq_Cons_conv)
  from cycles_four [of r1 r2 r3 r4 ival dio nio now]
  obtain ds s where run: "cycles [r1, r2, r3, r4] (init ival dio nio now) = Inr (ds, s)"
    and st: "map cpu_status ds =
         [fst (get_status_and_color ''cpu'' (Some 50)), fst (get_status_and_color ''cpu'' (Some 55)),
          fst (get_status_and_color ''cpu'' (Some 58)), fst (get_status_and_color ''cpu'' (Some 70))]"
    and tr: "map cpu_trend ds =
         [Insufficient_data, deadband 55 ((50 + 55) / 2), deadband 58 ((50 + 55 + 58) / 3),
          deadband 70 ((55 + 58 + 70) / 3)]"
    unfolding a by (elim exE conjE) (rule that)
  have b: "map cpu_status ds = [HEALTHY, HEALTHY, HEALTHY, CAUTION]"
    unfolding st by (simp add: band_cpu)
  have t: "map cpu_trend ds = [Insufficient_data, Stable, Stable, Increasing]"
    unfolding tr by (simp add: deadband_def)
  show ?thesis
    unfolding rs by (rule exI [of _ ds], rule exI [of _ s]) (intro conjI run b t)
qed

theorem C2_scenario_bands_and_trend_witness:
  "map (average \<circ> cpu_now) scenario_1 = [50, 55, 58, 70]
   \<and> (\<exists>ds s. cycles scenario_1 monitor_0 = Inr (ds, s)
        \<and> map cpu_status ds = [HEALTHY, HEALTHY, HEALTHY, CAUTION]
        \<and> map cpu_trend ds = [Insufficient_data, Stable, Stable, Increasing])"
proof -
  have a: "map (average \<circ> cpu_now) scenario_1 = [50, 55, 58, 70]"
    by (simp add: scenario_1_def sample_def)
  from C2_scenario_bands_and_trend [OF a, of 15 disk_io_0 net_io_0 0, folded monitor_0_def] a
  show ?thesis by (rule_tac conjI)
qed

text \<open>
  The claim as stated names \<open>WARNING\<close> as the fourth band; the run of the scenario
  returns \<open>CAUTION\<close> there.
\<close>

theorem C2_fourth_band_counterexample:
  "map_sum id (map cpu_status \<circ> fst) (cycles scenario_1 monitor_0)
     = Inr [HEALTHY, HEALTHY, HEALTHY, CAUTION]
   \<and> map_sum id (map cpu_status \<circ> fst) (cycles scenario_1 monitor_0)
     \<noteq> Inr [HEALTHY, HEALTHY, HEALTHY, WARNING]"
proof -
  from cycles_four [of "sample 50 15" "sample 55 30" "sample 58 45" "sample 70 60"
      15 disk_io_0 net_io_0 0, folded scenario_1_def monitor_0_def]
  obtain ds s where run: "cycles scenario_1 monitor_0 = Inr (ds, s)"
    and st: "map cpu_status ds =
         [fst (get_status_and_color ''cpu'' (Some (average (cpu_now (sample 50 15))))),
          fst (get_status_and_color ''cpu'' (Some (average (cpu_now (sample 55 30))))),
          fst (get_status_and_color ''cpu'' (Some (average (cpu_now (sample 58 45))))),
          fst (get_status_and_color ''cpu'' (Some (average (cpu_now (sample 70 60)))))]"
    by (elim exE conjE) (rule that)
  have "map cpu_status ds = [HEALTHY, HEALTHY, HEALTHY, CAUTION]"
    unfolding st by (simp add: sample_def band_cpu)
  then show ?thesis by (simp add: run)
qed


subsection \<open>Trend\<close>

text \<open>
  C3 (as amended). For every metric kind whose window has at least two entries, the last
  of them the current value (the sampling method appended it before the trend is asked
  for), the verdict is one of \<open>Increasing\<close>, \<open>Decreasing\<close>, \<open>Stable\<close>, and it compares the
  current value with the mean of the last up to three entries of the window, the current
  value included: that is, of the current value together with up to the two most recent
  entries that precede it. The verdict is \<open>Increasing\<close> if the current value is above 1.1
  times that mean, else \<open>Decreasing\<close> if it is below 0.9 times that mean, else \<open>Stable\<close>.
  The monitor makes the comparisons in double arithmetic, so the verdict is stated for a
  current value that is farther from the two boundaries than a tolerance \<open>tol\<close> (a
  part in \<open>10\<^sup>1\<^sup>2\<close> of the magnitudes averaged), which is far above the rounding error of
  the sum, the quotient and the product; entries of magnitude up to \<open>10\<^sup>1\<^sup>0\<^sup>0\<close> keep that
  arithmetic away from overflow.
\<close>

theorem C3_trend_mean_includes_current:
  assumes "health_history s metric_type = Some h" and "2 \<le> length h" and "last h = v"
    and "recent = drop (length h - 3) (butlast h) @ [v]"
    and "m = sum_list recent / real (length recent)"
    and "tol = sum_list (map abs recent) / 10 ^ 12 + 1 / 10 ^ 100"
    and "\<forall>x \<in> set recent. \<bar>x\<bar> \<le> 10 ^ 100"
  shows "analyze_trend s metric_type (Some v) \<in> {Increasing, Decreasing, Stable}
   \<and> recent = drop (length h - 3) h
   \<and> length recent = min 3 (length h)
   \<and> (m * (11 / 10) + tol < v \<longrightarrow> analyze_trend s metric_type (Some v) = Increasing)
   \<and> (v \<le> m * (11 / 10) - tol \<and> v < m * (9 / 10) - tol
        \<longrightarrow> analyze_trend s metric_type (Some v) = Decreasing)
   \<and> (v \<le> m * (11 / 10) - tol \<and> m * (9 / 10) + tol \<le> v
        \<longrightarrow> analyze_trend s metric_type (Some v) = Stable)"
proof -
  from assms(2) have ne: "h \<noteq> []" by auto
  with assms(3) have h: "h = butlast h @ [v]" by (metis append_butlast_last_id)
  have le: "length h - 3 \<le> length (butlast h)" by simp
  have "drop (length h - 3) h = drop (length h - 3) (butlast h @ [v])"
    using h by simp
  also have "\<dots> = drop (length h - 3) (butlast h) @ [v]"
    using le by simp
  finally have rec: "recent = drop (length h - 3) h"
    using assms(4) by simp
  have len: "length recent = min 3 (length h)"
    unfolding rec using assms(2) by auto
  have tr: "analyze_trend s metric_type (Some v) = deadband v m"
    using assms(1,2) by (simp add: analyze_trend_window assms(5) len rec [symmetric])
  have "0 \<le> sum_list (map abs recent)"
    by (rule sum_list_nonneg) auto
  then have tol: "0 \<le> tol"
    unfolding assms(6) by simp
  have verdicts: "deadband v m \<in> {Increasing, Decreasing, Stable}"
    by (simp add: deadband_def)
  have inc: "m * (11 / 10) + tol < v \<longrightarrow> deadband v m = Increasing"
    using tol by (simp add: deadband_def)
  have dec: "v \<le> m * (11 / 10) - tol \<and> v < m * (9 / 10) - tol \<longrightarrow> deadband v m = Decreasing"
    using tol by (auto simp add: deadband_def)
  have stb: "v \<le> m * (11 / 10) - tol \<and> m * (9 / 10) + tol \<le> v \<longrightarrow> deadband v m = Stable"
    using tol by (auto simp add: deadband_def)
  show ?thesis
    unfolding tr using verdicts rec len inc dec stb by blast
qed

theorem C3_trend_mean_includes_current_witness:
  "health_history monitor_step_up ''cpu'' = Some [100, 100, 100, 111]
   \<and> 2 \<le> length [100, 100, 100, 111 :: real] \<and> last [100, 100, 100, 111 :: real] = 111
   \<and> [100, 100, 111 :: real] = drop (length [100, 100, 100, 111 :: real] - 3)
        (butlast [100, 100, 100, 111]) @ [111]
   \<and> (311 / 3 :: real) = sum_list [100, 100, 111] / real (length [100, 100, 111 :: real])
   \<and> (311 / 10 ^ 12 + 1 / 10 ^ 100 :: real)
        = sum_list (map abs [100, 100, 111]) / 10 ^ 12 + 1 / 10 ^ 100
   \<and> \<bar>100 :: real\<bar> \<le> 10 ^ 100 \<and> \<bar>111 :: real\<bar> \<le> 10 ^ 100
   \<and> (111 :: real) \<le> 311 / 3 * (11 / 10) - (311 / 10 ^ 12 + 1 / 10 ^ 100)
   \<and> (311 / 3 :: real) * (9 / 10) + (311 / 10 ^ 12 + 1 / 10 ^ 100) \<le> 111
   \<and> analyze_trend monitor_step_up ''cpu'' (Some 111) = Stable"
proof -
  have h: "health_history monitor_step_up ''cpu'' = Some [100, 100, 100, 111]"
    by (simp add: monitor_step_up_def)
  have l: "2 \<le> length [100, 100, 100, 111 :: real]" "last [100, 100, 100, 111 :: real] = 111"
    by simp_all
  have r: "[100, 100, 111 :: real] = drop (length [100, 100, 100, 111 :: real] - 3)
        (butlast [100, 100, 100, 111]) @ [111]"
    by simp
  have m: "(311 / 3 :: real) = sum_list [100, 100, 111] / real (length [100, 100, 111 :: real])"
    by simp
  have t: "(311 / 10 ^ 12 + 1 / 10 ^ 100 :: real)
        = sum_list (map abs [100, 100, 111]) / 10 ^ 12 + 1 / 10 ^ 100"
    by simp
  have b: "\<forall>x \<in> set [100, 100, 111 :: real]. \<bar>x\<bar> \<le> 10 ^ 100"
    by simp
  have c: "(111 :: real) \<le> 311 / 3 * (11 / 10) - (311 / 10 ^ 12 + 1 / 10 ^ 100)"
    "(311 / 3 :: real) * (9 / 10) + (311 / 10 ^ 12 + 1 / 10 ^ 100) \<le> 111"
    by simp_all
  from C3_trend_mean_includes_current [OF h l r m t b] c
  have "analyze_trend monitor_step_up ''cpu'' (Some 111) = Stable"
    by blast
  with h l r m t b c show ?thesis by simp
qed

text \<open>
  The claim as stated takes the mean over the entries that strictly precede the current
  one. After the CPU averages 100, 100, 100, 111 that rule gives \<open>Increasing\<close> (111 is
  above 110), whereas the monitor reports \<open>Stable\<close> at the fourth cycle (the mean of
  100, 100, 111 is above 103, and 111 is within a tenth of it).
\<close>

theorem C3_preceding_mean_counterexample:
  "map_sum id (window ''cpu'' \<circ> snd) (cycles step_up monitor_0)
     = Inr (Some [100, 100, 100, 111])
   \<and> map_sum id (map cpu_trend \<circ> fst) (cycles step_up monitor_0)
     = Inr [Insufficient_data, Stable, Stable, Stable]
   \<and> spec_trend [100, 100, 100, 111] 111 = Increasing"
proof -
  from cycles_four [of "sample 100 15" "sample 100 30" "sample 100 45" "sample 111 60"
      15 disk_io_0 net_io_0 0, folded step_up_def monitor_0_def]
  obtain ds s where run: "cycles step_up monitor_0 = Inr (ds, s)"
    and tr: "map cpu_trend ds =
       [Insufficient_data,
        deadband (average (cpu_now (sample 100 30)))
          ((average (cpu_now (sample 100 15)) + average (cpu_now (sample 100 30))) / 2),
        deadband (average (cpu_now (sample 100 45)))
          ((average (cpu_now (sample 100 15)) + average (cpu_now (sample 100 30))
            + average (cpu_now (sample 100 45))) / 3),
        deadband (average (cpu_now (sample 111 60)))
          ((average (cpu_now (sample 100 30)) + average (cpu_now (sample 100 45))
            + average (cpu_now (sample 111 60))) / 3)]"
    and w: "health_history s ''cpu'' =
       Some [average (cpu_now (sample 100 15)), average (cpu_now (sample 100 30)),
             average (cpu_now (sample 100 45)), average (cpu_now (sample 111 60))]"
    by (elim exE conjE) (rule that)
  have t: "map cpu_trend ds = [Insufficient_data, Stable, Stable, Stable]"
    unfolding tr by (simp add: sample_def deadband_def)
  have w': "window ''cpu'' s = Some [100, 100, 100, 111]"
    unfolding window_def w by (simp add: sample_def)
  have sp: "spec_trend [100, 100, 100, 111] 111 = Increasing"
    by (simp add: spec_trend_def deadband_def Let_def)
  show ?thesis by (simp add: run t w' sp)
qed

text \<open>
  C4. For every metric kind and every history, an absent reading is classified \<open>UNKNOWN\<close>
  by both classifiers, and the trend verdict is \<open>INSUFFICIENT_DATA\<close> (\<^verbatim>\<open>analyze_trend\<close>
  answers "No data" before it looks at the history).
\<close>

theorem C4_absent_reading_unknown_insufficient:
  "fst (get_status_and_color metric_type None) = UNKNOWN
   \<and> get_status_text metric_type None = UNKNOWN
   \<and> analyze_trend s metric_type None = No_data
   \<and> verdict (analyze_trend s metric_type None) = INSUFFICIENT_DATA"
  by (simp add: band_None text_None analyze_trend_def)

end
